theory Spec2Isabelle
  imports Complex_Main "HOL-Library.Log_Nat"
begin

section \<open>Python exceptions\<close>

text \<open>
  Every exception the program can raise is a value of \<open>py_error\<close>; a function that can
  raise returns \<open>py_error + 'a\<close>, with \<open>Inl\<close> for the exception. The program defines no
  exception class of its own and has one \<^verbatim>\<open>try\<close> (in \<^verbatim>\<open>read_url\<close>), so every
  error is one of Python's built-in ones. \<open>InvalidInputError\<close> and \<open>NotFoundError\<close> are
  the error kinds the specification names; they are here so that statements about them
  can be written, and no definition below constructs them.
\<close>

datatype py_error =
    ZeroDivisionError | OverflowError | ValueError | IndexError
  | AttributeError | TypeError | FileExistsError | RegexError
  | InvalidInputError | NotFoundError

section \<open>Python floats\<close>

text \<open>
  A Python float is an IEEE 754 binary64 number. It is modelled by its sign and its
  magnitude, an exact rational (so \<open>Fin True 0\<close> is \<^verbatim>\<open>-0.0\<close>), or it is an infinity
  or a NaN. Every operation computes the exact rational result and rounds it to the
  nearest double, ties to even, as the hardware and CPython's correctly rounded
  conversions do.
\<close>

datatype pyfloat = Fin bool rat | Infty bool | NaN

definition pow2 :: "int \<Rightarrow> rat" where
  "pow2 e = (if 0 \<le> e then 2 ^ nat e else 1 / 2 ^ nat (- e))"

text \<open>\<open>binade m\<close> is the exponent \<open>e\<close> with \<open>2\<^sup>e \<le> m < 2\<^sup>e\<^sup>+\<^sup>1\<close>, for \<open>m > 0\<close>.\<close>

definition binade :: "rat \<Rightarrow> int" where
  "binade m =
     (let e = bitlen (fst (quotient_of m)) - bitlen (snd (quotient_of m))
      in if pow2 e \<le> m then e else e - 1)"

definition round_half_even :: "rat \<Rightarrow> int" where
  "round_half_even x =
     (let f = \<lfloor>x\<rfloor>; r = x - of_int f
      in if r < 1 / 2 then f else if 1 / 2 < r then f + 1
         else if even f then f else f + 1)"

text \<open>
  The spacing of the doubles around \<open>m\<close>: 53 significant bits, and the fixed spacing
  \<open>2\<^sup>-\<^sup>1\<^sup>0\<^sup>7\<^sup>4\<close> of the subnormal numbers below \<open>2\<^sup>-\<^sup>1\<^sup>0\<^sup>2\<^sup>2\<close>.
\<close>

definition ulp :: "rat \<Rightarrow> rat" where
  "ulp m = pow2 (max (binade m) (- 1022) - 52)"

definition nearest_double :: "rat \<Rightarrow> rat" where
  "nearest_double m =
     (if m = 0 then 0 else of_int (round_half_even (m / ulp m)) * ulp m)"

definition max_double :: rat where
  "max_double = (2 ^ 53 - 1) * 2 ^ 971"

text \<open>
  \<^verbatim>\<open>a / b\<close> on two ints (\<^verbatim>\<open>long_true_divide\<close>): correctly rounded, the sign taken from
  the signs of the operands.
\<close>

definition int_true_divide :: "int \<Rightarrow> int \<Rightarrow> py_error + pyfloat" where
  "int_true_divide a b =
     (if b = 0 then Inl ZeroDivisionError
      else let r = nearest_double (\<bar>of_int a\<bar> / \<bar>of_int b\<bar>)
           in if max_double < r then Inl OverflowError
              else Inr (Fin ((a < 0) \<noteq> (b < 0)) r))"

text \<open>The conversion of an int operand to a float (\<^verbatim>\<open>PyLong_AsDouble\<close>).\<close>

definition float_of_int :: "int \<Rightarrow> py_error + pyfloat" where
  "float_of_int a =
     (let r = nearest_double \<bar>of_int a\<bar>
      in if max_double < r then Inl OverflowError else Inr (Fin (a < 0) r))"

text \<open>The division of the hardware, for a divisor that is not zero.\<close>

fun float_div :: "pyfloat \<Rightarrow> pyfloat \<Rightarrow> pyfloat" where
  "float_div (Fin s m) (Fin t n) =
     (let r = nearest_double (m / n)
      in if max_double < r then Infty (s \<noteq> t) else Fin (s \<noteq> t) r)"
| "float_div (Fin s m) (Infty t) = Fin (s \<noteq> t) 0"
| "float_div (Infty s) (Fin t n) = Infty (s \<noteq> t)"
| "float_div x y = NaN"

fun float_is_zero :: "pyfloat \<Rightarrow> bool" where
  "float_is_zero (Fin s m) = (m = 0)"
| "float_is_zero x = False"

text \<open>
  \<^verbatim>\<open>a / y\<close> for an int \<open>a\<close> and a float \<open>y\<close> (\<^verbatim>\<open>float_div\<close> of CPython): the int
  is converted first, then a zero divisor raises.
\<close>

definition int_truediv_float :: "int \<Rightarrow> pyfloat \<Rightarrow> py_error + pyfloat" where
  "int_truediv_float a y =
     (case float_of_int a of
        Inl e \<Rightarrow> Inl e
      | Inr x \<Rightarrow> if float_is_zero y then Inl ZeroDivisionError else Inr (float_div x y))"

text \<open>
  \<^verbatim>\<open>round(x, ndigits)\<close> for a float and \<open>0 \<le> ndigits\<close>: the exact value of \<open>x\<close> is
  rounded to \<open>ndigits\<close> decimals, ties to even, and the decimal is converted back to
  the nearest double. Infinities and NaN round to themselves, and so does every float
  when \<open>ndigits\<close> is above 323.
\<close>

fun float_round :: "pyfloat \<Rightarrow> nat \<Rightarrow> py_error + pyfloat" where
  "float_round (Fin s m) ndigits =
     (if 323 < ndigits then Inr (Fin s m)
      else let d = of_int (round_half_even (m * 10 ^ ndigits)) / 10 ^ ndigits;
               r = nearest_double d
           in if max_double < r then Inl OverflowError else Inr (Fin s r))"
| "float_round x ndigits = Inr x"

section \<open>The per-100,000 statistic\<close>

text \<open>
  \<^verbatim>\<open>
  def calculate_per_100000_stat(population, stat):
      if stat == 0:
          return 0.0
      converted_population = population / 100000
      return round(stat / converted_population, 1)
  \<close>
  Both arguments are ints at every call of the program.
\<close>

definition calculate_per_100000_stat :: "int \<Rightarrow> int \<Rightarrow> py_error + pyfloat" where
  "calculate_per_100000_stat population stat =
     (if stat = 0 then Inr (Fin False 0)
      else case int_true_divide population 100000 of
             Inl e \<Rightarrow> Inl e
           | Inr converted_population \<Rightarrow>
               (case int_truediv_float stat converted_population of
                  Inl e \<Rightarrow> Inl e
                | Inr q \<Rightarrow> float_round q 1))"

section \<open>Parsed pages\<close>

text \<open>
  A page parsed by BeautifulSoup is a tree of tags and strings. A tag has a name, its
  attributes and its children.
\<close>

datatype node = NavigableString string | Tag string "(string \<times> string) list" "node list"

fun is_tag :: "string \<Rightarrow> node \<Rightarrow> bool" where
  "is_tag name (Tag n attrs children) = (n = name)"
| "is_tag name (NavigableString s) = False"

text \<open>\<^verbatim>\<open>tag.get(key, None)\<close>\<close>

fun get_attr :: "node \<Rightarrow> string \<Rightarrow> string option" where
  "get_attr (Tag n attrs children) key = map_of attrs key"
| "get_attr (NavigableString s) key = None"

text \<open>\<^verbatim>\<open>tag.get_text()\<close>: all the strings below the tag, concatenated.\<close>

fun get_text :: "node \<Rightarrow> string" where
  "get_text (NavigableString s) = s"
| "get_text (Tag n attrs children) = concat (map get_text children)"

text \<open>
  \<^verbatim>\<open>tag.string\<close>: the string of a tag with exactly one child, through single
  children; \<^verbatim>\<open>None\<close> for any other tag.
\<close>

fun node_string :: "node \<Rightarrow> string option" where
  "node_string (NavigableString s) = Some s"
| "node_string (Tag n attrs [c]) = node_string c"
| "node_string (Tag n attrs children) = None"

text \<open>Document order: a tag comes before its children, children from left to right.\<close>

fun preorder :: "node \<Rightarrow> node list" where
  "preorder (NavigableString s) = [NavigableString s]"
| "preorder (Tag n attrs children) = Tag n attrs children # concat (map preorder children)"

text \<open>
  An element found in a page is the node together with the elements after it in document
  order (its \<^verbatim>\<open>next_elements\<close>), which is what the searches of BeautifulSoup walk.
\<close>

type_synonym element = "node \<times> node list"

fun positions :: "node list \<Rightarrow> element list" where
  "positions [] = []"
| "positions (x # xs) = (x, xs) # positions xs"

definition soup_element :: "node \<Rightarrow> element" where
  "soup_element soup = (soup, tl (preorder soup))"

fun descendants :: "element \<Rightarrow> element list" where
  "descendants (x, following) = take (length (preorder x) - 1) (positions following)"

text \<open>\<^verbatim>\<open>tag.find_all(...)\<close>: the descendants that match, in document order.\<close>

definition find_all :: "element \<Rightarrow> (node \<Rightarrow> bool) \<Rightarrow> element list" where
  "find_all e matches = filter (\<lambda>d. matches (fst d)) (descendants e)"

text \<open>\<^verbatim>\<open>tag.find(...)\<close>: the first match, or \<^verbatim>\<open>None\<close>.\<close>

definition find_first :: "element \<Rightarrow> (node \<Rightarrow> bool) \<Rightarrow> element option" where
  "find_first e matches = (case find_all e matches of [] \<Rightarrow> None | d # ds \<Rightarrow> Some d)"

text \<open>\<^verbatim>\<open>tag.find_next(name)\<close>: the first tag of that name after this element.\<close>

fun find_next :: "element \<Rightarrow> string \<Rightarrow> element option" where
  "find_next (x, following) name =
     (case dropWhile (\<lambda>n. \<not> is_tag name n) following of
        [] \<Rightarrow> None
      | y # ys \<Rightarrow> Some (y, ys))"

text \<open>
  \<^verbatim>\<open>find_all('a', string=regex)\<close>: the \<^verbatim>\<open>a\<close> tags whose \<^verbatim>\<open>.string\<close> exists and is
  matched by \<^verbatim>\<open>regex.search\<close>.
\<close>

definition anchor_matches :: "(string \<Rightarrow> bool) \<Rightarrow> node \<Rightarrow> bool" where
  "anchor_matches regex n =
     (is_tag ''a'' n \<and> (case node_string n of None \<Rightarrow> False | Some s \<Rightarrow> regex s))"

section \<open>Strings and integers of Python\<close>

definition newline :: char where
  "newline = CHR 0x0A"

text \<open>\<^verbatim>\<open>s.startswith(p)\<close>\<close>

definition startswith :: "string \<Rightarrow> string \<Rightarrow> bool" where
  "startswith s p = (take (length p) s = p)"

text \<open>\<^verbatim>\<open>s.replace(",", "")\<close>\<close>

definition remove_commas :: "string \<Rightarrow> string" where
  "remove_commas s = filter (\<lambda>c. c \<noteq> CHR '','') s"

text \<open>
  \<^verbatim>\<open>int(s)\<close> on a string: white space around the number is dropped, a sign may come
  first, and the digits may be separated by single underscores. Anything else raises
  \<^verbatim>\<open>ValueError\<close>. (Characters are ASCII here.)
\<close>

definition is_space :: "char \<Rightarrow> bool" where
  "is_space c = (let n = (of_char c :: nat) in (9 \<le> n \<and> n \<le> 13) \<or> (28 \<le> n \<and> n \<le> 32))"

definition strip :: "string \<Rightarrow> string" where
  "strip s = rev (dropWhile is_space (rev (dropWhile is_space s)))"

definition is_digit :: "char \<Rightarrow> bool" where
  "is_digit c = (48 \<le> (of_char c :: nat) \<and> (of_char c :: nat) \<le> 57)"

definition digit_value :: "char \<Rightarrow> int" where
  "digit_value c = int (of_char c) - 48"

fun parse_digits :: "string \<Rightarrow> int \<Rightarrow> int option" where
  "parse_digits [] acc = Some acc"
| "parse_digits [c] acc = (if is_digit c then Some (acc * 10 + digit_value c) else None)"
| "parse_digits (c # d # cs) acc =
     (if is_digit c then parse_digits (d # cs) (acc * 10 + digit_value c)
      else if c = CHR ''_'' \<and> is_digit d then parse_digits cs (acc * 10 + digit_value d)
      else None)"

definition parse_unsigned :: "string \<Rightarrow> int option" where
  "parse_unsigned s =
     (case s of
        [] \<Rightarrow> None
      | c # cs \<Rightarrow> if is_digit c then parse_digits cs (digit_value c) else None)"

definition py_int :: "string \<Rightarrow> py_error + int" where
  "py_int s =
     (case strip s of
        [] \<Rightarrow> Inl ValueError
      | c # cs \<Rightarrow>
          (case parse_unsigned (if c = CHR ''-'' \<or> c = CHR ''+'' then cs else c # cs) of
             None \<Rightarrow> Inl ValueError
           | Some n \<Rightarrow> Inr (if c = CHR ''-'' then - n else n)))"

text \<open>\<^verbatim>\<open>f'{n:,}'\<close>: the decimal digits of an int, in groups of three from the right.\<close>

function nat_digits :: "nat \<Rightarrow> string" where
  "nat_digits n =
     (if n < 10 then [''0123456789'' ! n]
      else nat_digits (n div 10) @ [''0123456789'' ! (n mod 10)])"
  by pat_completeness auto
termination
  by (relation "measure id") auto

declare nat_digits.simps [simp del]

fun group3 :: "string \<Rightarrow> string" where
  "group3 (a # b # c # d # rest) = a # b # c # CHR '','' # group3 (d # rest)"
| "group3 short = short"

definition format_commas :: "int \<Rightarrow> string" where
  "format_commas n =
     (if n < 0 then ''-'' else []) @ rev (group3 (rev (nat_digits (nat \<bar>n\<bar>))))"

text \<open>\<^verbatim>\<open>f'{s:>w}'\<close>: \<open>s\<close> padded with spaces on the left to the width \<open>w\<close>.\<close>

definition rjust :: "nat \<Rightarrow> string \<Rightarrow> string" where
  "rjust w s = replicate (w - length s) CHR '' '' @ s"

text \<open>
  A Python dict keeps its keys in the order of their first insertion; assigning to a
  key that is there replaces the value and leaves the key where it is.
\<close>

fun dict_set :: "('k \<times> 'v) list \<Rightarrow> 'k \<Rightarrow> 'v \<Rightarrow> ('k \<times> 'v) list" where
  "dict_set [] k v = [(k, v)]"
| "dict_set ((k', v') # d) k v =
     (if k' = k then (k, v) # d else (k', v') # dict_set d k v)"

section \<open>The world outside the program\<close>

text \<open>
  What the program takes from its libraries and from the network is a parameter:
  \<^item> \<open>web\<close>: the page \<^verbatim>\<open>urlopen\<close> and the parser give for an address, \<open>None\<close> when
    opening it raises \<^verbatim>\<open>URLError\<close>;
  \<^item> \<open>re_compile_ignorecase\<close>: \<^verbatim>\<open>re.compile(pattern, re.IGNORECASE)\<close>, giving the
    \<^verbatim>\<open>search\<close> of the compiled pattern as a predicate, \<open>None\<close> when the pattern is
    not a regular expression;
  \<^item> \<open>urljoin\<close>: \<^verbatim>\<open>urllib.parse.urljoin\<close>;
  \<^item> \<open>float_str\<close>: the text Python prints for a float.

  The files of the working directory are a map from names to contents.
\<close>

record env =
  web :: "string \<Rightarrow> node option"
  re_compile_ignorecase :: "string \<Rightarrow> (string \<Rightarrow> bool) option"
  urljoin :: "string \<Rightarrow> string \<Rightarrow> string"
  float_str :: "pyfloat \<Rightarrow> string"

type_synonym files = "string \<rightharpoonup> string"

section \<open>The program\<close>

text \<open>
  \<^verbatim>\<open>read_url\<close> returns the parsed page, or prints a message and returns \<^verbatim>\<open>None\<close>
  when opening the address raises \<^verbatim>\<open>URLError\<close>. (What the program prints is not
  modelled.)
\<close>

definition read_url :: "env \<Rightarrow> string \<Rightarrow> node option" where
  "read_url env url = web env url"

text \<open>
  \<^verbatim>\<open>re.match(r'..*\n', text)\<close>: at the start of the text, one character that is not a
  newline, then any number of them, then a newline.
\<close>

fun rest_of_line :: "string \<Rightarrow> bool" where
  "rest_of_line [] = False"
| "rest_of_line (c # cs) = (if c = newline then True else rest_of_line cs)"

definition paragraph_pattern :: "string \<Rightarrow> bool" where
  "paragraph_pattern text =
     (case text of [] \<Rightarrow> False | c # cs \<Rightarrow> c \<noteq> newline \<and> rest_of_line cs)"

text \<open>
  \<^verbatim>\<open>
  def get_first_paragraph(url):
      soup = read_url(url)
      pattern = r'..*\n'
      for p_tag in soup("p"):
          if re.match(pattern, p_tag.get_text()):
              return p_tag.get_text()
  \<close>
  Calling \<^verbatim>\<open>None\<close> raises \<^verbatim>\<open>TypeError\<close>; falling off the loop returns \<^verbatim>\<open>None\<close>.
\<close>

definition get_first_paragraph :: "env \<Rightarrow> string \<Rightarrow> py_error + string option" where
  "get_first_paragraph env url =
     (case read_url env url of
        None \<Rightarrow> Inl TypeError
      | Some soup \<Rightarrow>
          Inr (find paragraph_pattern
                 (map (\<lambda>p_tag. get_text (fst p_tag))
                    (find_all (soup_element soup) (is_tag ''p'')))))"

definition population_url :: string where
  "population_url =
     ''https://en.wikipedia.org/wiki/List_of_countries_and_dependencies_by_population''"

text \<open>
  \<^verbatim>\<open>
  def get_population(country):
      soup = read_url("https://en.wikipedia.org/wiki/List_of_countries_and_"
                      "dependencies_by_population")
      table = soup('table')[0]
      regex = re.compile(country, re.IGNORECASE)
      country_row = table.find_all('a', string=regex)
      return int(country_row[0].find_next("td").get_text().replace(",", ""))
  \<close>
\<close>

definition get_population :: "env \<Rightarrow> string \<Rightarrow> py_error + int" where
  "get_population env country =
     (case read_url env population_url of
        None \<Rightarrow> Inl TypeError
      | Some soup \<Rightarrow>
     (case find_all (soup_element soup) (is_tag ''table'') of
        [] \<Rightarrow> Inl IndexError
      | table # tables \<Rightarrow>
     (case re_compile_ignorecase env country of
        None \<Rightarrow> Inl RegexError
      | Some regex \<Rightarrow>
     (case find_all table (anchor_matches regex) of
        [] \<Rightarrow> Inl IndexError
      | first_row # rows \<Rightarrow>
     (case find_next first_row ''td'' of
        None \<Rightarrow> Inl AttributeError
      | Some td \<Rightarrow> py_int (remove_commas (get_text (fst td))))))))"

text \<open>
  The dictionary \<^verbatim>\<open>countries\<close> maps a country's name to the tuple of its formatted
  population, cases and deaths, its two rates and its first paragraph.
\<close>

type_synonym country_info =
  "string \<times> string \<times> string \<times> pyfloat \<times> pyfloat \<times> string option"

text \<open>
  \<^verbatim>\<open>
  def create_summary_file(search_term, countries):
      with open(f'{search_term}summary.txt', 'x', encoding='utf-8') as \
              summary_file:
          for country in countries:
              population, cases, deaths, cases_per_100000, deaths_per_100000, \
                  first_paragraph = countries[country]
              summary_file.write(f'Country: {country}\n'
                                 f'Population:{population:>30}\n'
                                 f'Total Confirmed Cases:{cases:>19}\n'
                                 f'Total Deaths:{deaths:>28}\n'
                                 f'Cases per 100,000 people:'
                                 f'{cases_per_100000:>18}\n'
                                 f'Deaths per 100,000 people:'
                                 f'{deaths_per_100000:>17}\n'
                                 f'{first_paragraph}\n\n')
  \<close>
  Mode \<^verbatim>\<open>'x'\<close> raises \<^verbatim>\<open>FileExistsError\<close> when the file is there.
\<close>

definition summary_block :: "env \<Rightarrow> string \<times> country_info \<Rightarrow> string" where
  "summary_block env entry =
     (case entry of
        (country, population, cases, deaths, cases_per_100000, deaths_per_100000,
         first_paragraph) \<Rightarrow>
          ''Country: '' @ country @ [newline]
          @ ''Population:'' @ rjust 30 population @ [newline]
          @ ''Total Confirmed Cases:'' @ rjust 19 cases @ [newline]
          @ ''Total Deaths:'' @ rjust 28 deaths @ [newline]
          @ ''Cases per 100,000 people:'' @ rjust 18 (float_str env cases_per_100000)
          @ [newline]
          @ ''Deaths per 100,000 people:'' @ rjust 17 (float_str env deaths_per_100000)
          @ [newline]
          @ (case first_paragraph of None \<Rightarrow> ''None'' | Some text \<Rightarrow> text)
          @ [newline, newline])"

definition summary_name :: "string \<Rightarrow> string" where
  "summary_name search_term = search_term @ ''summary.txt''"

definition create_summary_file ::
  "env \<Rightarrow> files \<Rightarrow> string \<Rightarrow> (string \<times> country_info) list \<Rightarrow> (py_error + unit) \<times> files"
where
  "create_summary_file env fs search_term countries =
     (case fs (summary_name search_term) of
        Some old \<Rightarrow> (Inl FileExistsError, fs)
      | None \<Rightarrow>
          (Inr (),
           fs(summary_name search_term \<mapsto> concat (map (summary_block env) countries))))"

definition pandemic_url :: string where
  "pandemic_url =
     ''https://en.wikipedia.org/wiki/2019%E2%80%9320_coronavirus_pandemic_by_country_and_territory''"

definition country_prefix :: string where
  "country_prefix = ''/wiki/2020_coronavirus_pandemic_in_''"

text \<open>
  The body of the loop of \<^verbatim>\<open>country_coronavirus_stats\<close> for one anchor: \<open>Inr None\<close>
  when the anchor is skipped by \<^verbatim>\<open>continue\<close>, the key and the tuple stored in the
  dictionary otherwise.
  \<^verbatim>\<open>
      if not country.get("href", None).\
              startswith("/wiki/2020_coronavirus_pandemic_in_"):
          continue

      cases = int(country.find_next('td').get_text().replace(",", ""))
      deaths = int(country.find_next('td').find_next('td').get_text().
                   replace(",", ""))
      link = urllib.parse.urljoin("https://en.wikipedia.org",
                                  country.get("href", None))
      first_paragraph = get_first_paragraph(link)
      population = get_population(country.get_text())
      cases_per_100000 = calculate_per_100000_stat(population, cases)
      deaths_per_100000 = calculate_per_100000_stat(population, deaths)

      countries[country.get_text()] = (f'{population:,}', f'{cases:,}',
                                       f'{deaths:,}', cases_per_100000,
                                       deaths_per_100000, first_paragraph)
  \<close>
\<close>

definition country_entry :: "env \<Rightarrow> element \<Rightarrow> py_error + (string \<times> country_info) option" where
  "country_entry env country =
     (case get_attr (fst country) ''href'' of
        None \<Rightarrow> Inl AttributeError
      | Some href \<Rightarrow>
     if \<not> startswith href country_prefix then Inr None
     else
     (case find_next country ''td'' of
        None \<Rightarrow> Inl AttributeError
      | Some cases_td \<Rightarrow>
     (case py_int (remove_commas (get_text (fst cases_td))) of
        Inl e \<Rightarrow> Inl e
      | Inr cases \<Rightarrow>
     (case find_next cases_td ''td'' of
        None \<Rightarrow> Inl AttributeError
      | Some deaths_td \<Rightarrow>
     (case py_int (remove_commas (get_text (fst deaths_td))) of
        Inl e \<Rightarrow> Inl e
      | Inr deaths \<Rightarrow>
     (case get_first_paragraph env (urljoin env ''https://en.wikipedia.org'' href) of
        Inl e \<Rightarrow> Inl e
      | Inr first_paragraph \<Rightarrow>
     (case get_population env (get_text (fst country)) of
        Inl e \<Rightarrow> Inl e
      | Inr population \<Rightarrow>
     (case calculate_per_100000_stat population cases of
        Inl e \<Rightarrow> Inl e
      | Inr cases_per_100000 \<Rightarrow>
     (case calculate_per_100000_stat population deaths of
        Inl e \<Rightarrow> Inl e
      | Inr deaths_per_100000 \<Rightarrow>
          Inr (Some (get_text (fst country),
                     format_commas population, format_commas cases, format_commas deaths,
                     cases_per_100000, deaths_per_100000, first_paragraph)))))))))))"

text \<open>The loop over the anchors: the first exception ends it.\<close>

fun collect_countries ::
  "env \<Rightarrow> element list \<Rightarrow> (string \<times> country_info) list \<Rightarrow> py_error + (string \<times> country_info) list"
where
  "collect_countries env [] countries = Inr countries"
| "collect_countries env (country # countries_links) countries =
     (case country_entry env country of
        Inl e \<Rightarrow> Inl e
      | Inr None \<Rightarrow> collect_countries env countries_links countries
      | Inr (Some (name, info)) \<Rightarrow>
          collect_countries env countries_links (dict_set countries name info))"

text \<open>
  \<^verbatim>\<open>
  def country_coronavirus_stats(search_term):
      soup = read_url("https://en.wikipedia.org/wiki/2019%E2%80"
                      "%9320_coronavirus_pandemic_by_country_and_territory")
      table = soup.find('table', id='thetable')
      regex = re.compile(search_term, re.IGNORECASE)
      countries_links = table.find_all('a', string=regex)
      countries = {}

      for country in countries_links:
          ...

      create_summary_file(search_term, countries)
  \<close>
  \<open>countries_links\<close> is the list of anchors the loop runs over.
\<close>

definition is_thetable :: "node \<Rightarrow> bool" where
  "is_thetable n = (is_tag ''table'' n \<and> get_attr n ''id'' = Some ''thetable'')"

definition countries_links :: "env \<Rightarrow> string \<Rightarrow> py_error + element list" where
  "countries_links env search_term =
     (case read_url env pandemic_url of
        None \<Rightarrow> Inl AttributeError
      | Some soup \<Rightarrow>
     (case re_compile_ignorecase env search_term of
        None \<Rightarrow> Inl RegexError
      | Some regex \<Rightarrow>
     (case find_first (soup_element soup) is_thetable of
        None \<Rightarrow> Inl AttributeError
      | Some table \<Rightarrow> Inr (find_all table (anchor_matches regex)))))"

text \<open>The dictionary \<^verbatim>\<open>countries\<close> as it is when the loop has ended.\<close>

definition countries_dict :: "env \<Rightarrow> string \<Rightarrow> py_error + (string \<times> country_info) list" where
  "countries_dict env search_term =
     (case countries_links env search_term of
        Inl e \<Rightarrow> Inl e
      | Inr links \<Rightarrow> collect_countries env links [])"

definition country_coronavirus_stats :: "env \<Rightarrow> files \<Rightarrow> string \<Rightarrow> (py_error + unit) \<times> files" where
  "country_coronavirus_stats env fs search_term =
     (case countries_dict env search_term of
        Inl e \<Rightarrow> (Inl e, fs)
      | Inr countries \<Rightarrow> create_summary_file env fs search_term countries)"

section \<open>Rounding to the nearest double\<close>

lemma pow2_powi: "pow2 e = 2 powi e"
  by (simp add: pow2_def power_int_def inverse_eq_divide power_one_over)

lemma pow2_pos: "0 < pow2 e"
  by (simp add: pow2_powi)

lemma pow2_mono: "a \<le> b \<Longrightarrow> pow2 a \<le> pow2 b"
  by (simp add: pow2_powi power_int_increasing)

lemma pow2_diff: "pow2 (a - b) = pow2 a / pow2 b"
  by (simp add: pow2_powi power_int_diff)

lemma pow2_nat: "pow2 (int n) = 2 ^ n"
  by (simp add: pow2_def)

lemma binade_le:
  assumes "0 < m"
  shows "pow2 (binade m) \<le> m"
proof -
  obtain n d where q: "quotient_of m = (n, d)" by (cases "quotient_of m")
  have d: "0 < d" using q by (rule quotient_of_denom_pos)
  have m: "m = of_int n / of_int d" using q by (rule quotient_of_div)
  have n: "0 < n" using assms d m by (simp add: zero_less_divide_iff)
  define e where "e = bitlen n - bitlen d"
  have bn: "1 \<le> bitlen n" using n bitlen_eq_zero_iff [of n] bitlen_nonneg [of n] by linarith
  have "(2::int) ^ nat (bitlen n - 1) \<le> n" using bitlen_bounds [OF n] by simp
  then have "(of_int ((2::int) ^ nat (bitlen n - 1)) :: rat) \<le> of_int n"
    by (simp only: of_int_le_iff)
  then have lo: "pow2 (bitlen n - 1) \<le> of_int n"
    using bn by (simp add: pow2_def)
  have "d < (2::int) ^ nat (bitlen d)" using bitlen_bounds [OF d] by simp
  then have "(of_int d :: rat) < of_int ((2::int) ^ nat (bitlen d))"
    by (simp only: of_int_less_iff)
  then have hi: "of_int d \<le> pow2 (bitlen d)"
    using bitlen_nonneg [of d] by (simp add: pow2_def)
  have "pow2 (e - 1) = pow2 (bitlen n - 1) / pow2 (bitlen d)"
    unfolding e_def using pow2_diff [of "bitlen n - 1" "bitlen d"] by (simp add: algebra_simps)
  also have "\<dots> \<le> of_int n / of_int d"
    using lo hi d pow2_pos [of "bitlen n - 1"] pow2_pos [of "bitlen d"]
    by (intro frac_le) simp_all
  finally have "pow2 (e - 1) \<le> m" using m by simp
  then show ?thesis
    using q by (simp add: binade_def e_def Let_def)
qed

lemma round_half_even_upper: "of_int (round_half_even x) \<le> x + 1 / 2"
  unfolding round_half_even_def Let_def by (auto; linarith)

lemma round_half_even_lower: "x - 1 / 2 \<le> of_int (round_half_even x)"
  unfolding round_half_even_def Let_def by (auto; linarith)

lemma round_half_even_nonneg: "0 \<le> x \<Longrightarrow> 0 \<le> round_half_even x"
  unfolding round_half_even_def Let_def by (auto; linarith)

lemma round_half_even_le_double: 
  assumes "0 \<le> x" shows "of_int (round_half_even x) \<le> 2 * x"
proof (cases "x < 1 / 2")
  case True
  then have "\<lfloor>x\<rfloor> = 0" using assms by linarith
  then have "round_half_even x = 0" using True by (simp add: round_half_even_def)
  then show ?thesis using assms by simp
next
  case False
  then show ?thesis using round_half_even_upper [of x] by linarith
qed

lemma round_half_even_ge_half:
  assumes "1 \<le> x" shows "x / 2 \<le> of_int (round_half_even x)"
proof -
  have "of_int \<lfloor>x\<rfloor> \<le> (of_int (round_half_even x) :: rat)"
    unfolding round_half_even_def Let_def by auto
  moreover have "x / 2 \<le> of_int \<lfloor>x\<rfloor>"
  proof -
    have "1 \<le> \<lfloor>x\<rfloor>" using assms by linarith
    then have "(1::rat) \<le> of_int \<lfloor>x\<rfloor>" by linarith
    moreover have "x < of_int \<lfloor>x\<rfloor> + 1" by linarith
    ultimately show ?thesis by linarith
  qed
  ultimately show ?thesis by linarith
qed

lemma ulp_pos: "0 < ulp m"
  by (simp add: ulp_def pow2_pos)

lemma ulp_le:
  assumes "pow2 (- 1074) \<le> m"
  shows "ulp m \<le> m"
proof (cases "- 1022 \<le> binade m")
  case True
  have "0 < m" using assms pow2_pos [of "- 1074"] by linarith
  then have "pow2 (binade m) \<le> m" by (rule binade_le)
  moreover have "pow2 (binade m - 52) \<le> pow2 (binade m)" by (rule pow2_mono) simp
  ultimately show ?thesis using True by (simp add: ulp_def max_def)
next
  case False
  then show ?thesis using assms by (simp add: ulp_def max_def)
qed

lemma nearest_double_le_double:
  assumes "0 \<le> m" shows "nearest_double m \<le> 2 * m"
proof (cases "m = 0")
  case True then show ?thesis by (simp add: nearest_double_def)
next
  case False
  have "0 \<le> m / ulp m" using assms ulp_pos [of m] by simp
  then have "of_int (round_half_even (m / ulp m)) \<le> 2 * (m / ulp m)"
    by (rule round_half_even_le_double)
  then have "of_int (round_half_even (m / ulp m)) * ulp m \<le> 2 * (m / ulp m) * ulp m"
    using ulp_pos [of m] by (simp only: mult_le_cancel_right_pos)
  then show ?thesis using False ulp_pos [of m] by (simp add: nearest_double_def)
qed

lemma nearest_double_ge_half:
  assumes "pow2 (- 1074) \<le> m" shows "m / 2 \<le> nearest_double m"
proof -
  have pos: "0 < m" using assms pow2_pos [of "- 1074"] by linarith
  have "1 \<le> m / ulp m" using ulp_le [OF assms] ulp_pos [of m] by simp
  then have "m / ulp m / 2 \<le> of_int (round_half_even (m / ulp m))"
    by (rule round_half_even_ge_half)
  then have "m / ulp m / 2 * ulp m \<le> of_int (round_half_even (m / ulp m)) * ulp m"
    using ulp_pos [of m] by (simp only: mult_le_cancel_right_pos)
  then show ?thesis using pos ulp_pos [of m] by (simp add: nearest_double_def)
qed

lemma nearest_double_nonneg: "0 \<le> m \<Longrightarrow> 0 \<le> nearest_double m"
  using round_half_even_nonneg [of "m / ulp m"] ulp_pos [of m]
  by (simp add: nearest_double_def)

section \<open>Properties of the statistic\<close>

lemma pow2_m1074: "pow2 (- 1074) \<le> 1 / 200000"
  by (simp add: pow2_def)

lemma max_double_ge: "2 ^ 1022 \<le> max_double"
  by (simp add: max_double_def)

lemma not_overflow:
  assumes "r \<le> 2 * x" and "x \<le> 2 ^ k" and "k < 1022"
  shows "\<not> max_double < r" and "r \<le> 2 ^ Suc k"
proof -
  have "2 * x \<le> 2 * 2 ^ k" using assms(2) by simp
  then show r: "r \<le> 2 ^ Suc k" using assms(1) by simp
  have "(2::rat) ^ Suc k \<le> 2 ^ 1022"
    by (rule power_increasing) (use assms(3) in simp_all)
  then have "r \<le> max_double" using r max_double_ge by (meson order_trans)
  then show "\<not> max_double < r" by simp
qed

lemma int_true_divide_100000:
  assumes "a \<noteq> 0" and "\<bar>a\<bar> \<le> 2 ^ 1000"
  shows "\<exists>r. int_true_divide a 100000 = Inr (Fin (a < 0) r) \<and> 1 / 200000 \<le> r"
proof -
  define m :: rat where "m = \<bar>of_int a\<bar> / 100000"
  have "1 \<le> \<bar>a\<bar>" using assms(1) by linarith
  then have "(1::rat) \<le> of_int \<bar>a\<bar>" by (simp only: of_int_1_le_iff)
  then have lo: "1 / 100000 \<le> m" by (simp add: m_def)
  have "(of_int \<bar>a\<bar> :: rat) \<le> of_int (2 ^ 1000)" using assms(2) by (simp only: of_int_le_iff)
  then have hi: "m \<le> 2 ^ 1000" by (simp add: m_def)
  have "pow2 (- 1074) \<le> m" using lo pow2_m1074 by linarith
  then have "m / 2 \<le> nearest_double m" by (rule nearest_double_ge_half)
  then have r_lo: "1 / 200000 \<le> nearest_double m" using lo by linarith
  have "nearest_double m \<le> 2 * m" by (rule nearest_double_le_double) (use lo in linarith)
  then have r_hi: "\<not> max_double < nearest_double m" using hi by (rule not_overflow) simp
  show ?thesis
    using r_lo r_hi by (simp add: int_true_divide_def m_def Let_def)
qed

lemma float_of_int_small:
  assumes "a \<noteq> 0" and "\<bar>a\<bar> \<le> 2 ^ 1000"
  shows "\<exists>r. float_of_int a = Inr (Fin (a < 0) r) \<and> r \<le> 2 ^ 1001"
proof -
  define m :: rat where "m = \<bar>of_int a\<bar>"
  have "(of_int \<bar>a\<bar> :: rat) \<le> of_int (2 ^ 1000)" using assms(2) by (simp only: of_int_le_iff)
  then have hi: "m \<le> 2 ^ 1000" by (simp add: m_def)
  have le: "nearest_double m \<le> 2 * m" by (rule nearest_double_le_double) (simp add: m_def)
  have "\<not> max_double < nearest_double m" and "nearest_double m \<le> 2 ^ Suc 1000"
    using le hi by (rule not_overflow, simp)+
  then show ?thesis by (simp add: float_of_int_def m_def Let_def)
qed

lemma float_div_bounded:
  assumes "0 \<le> m" and "m \<le> 2 ^ 1001" and "1 / 200000 \<le> n"
  shows "\<exists>r. float_div (Fin s m) (Fin t n) = Fin (s \<noteq> t) r \<and> 0 \<le> r \<and> r \<le> 2 ^ 1020"
proof -
  have n: "0 < n" using assms(3) by linarith
  have "m / n \<le> m * 200000"
    using assms n by (simp add: field_simps) (metis mult.commute mult_left_mono mult_1)
  also have "\<dots> \<le> 2 ^ 1001 * 2 ^ 18" 
    by (rule mult_mono) (use assms in simp_all)
  finally have q: "m / n \<le> 2 ^ 1019" by simp
  have q0: "0 \<le> m / n" using assms n by simp
  have le: "nearest_double (m / n) \<le> 2 * (m / n)" using q0 by (rule nearest_double_le_double)
  have "\<not> max_double < nearest_double (m / n)" and "nearest_double (m / n) \<le> 2 ^ Suc 1019"
    using le q by (rule not_overflow, simp)+
  then show ?thesis using nearest_double_nonneg [OF q0] by (simp add: Let_def)
qed

lemma float_round_bounded:
  assumes "0 \<le> m" and "m \<le> 2 ^ 1020"
  shows "\<exists>r. float_round (Fin s m) 1 = Inr (Fin s r)"
proof -
  define d :: rat where "d = of_int (round_half_even (m * 10)) / 10"
  have "of_int (round_half_even (m * 10)) \<le> 2 * (m * 10)"
    by (rule round_half_even_le_double) (use assms in simp)
  then have d: "d \<le> 2 * m" by (simp add: d_def)
  have d0: "0 \<le> d" using round_half_even_nonneg [of "m * 10"] assms by (simp add: d_def)
  have d1: "d \<le> 2 ^ Suc 1020" using d assms(2) by (rule not_overflow) simp
  have "nearest_double d \<le> 2 * d" using d0 by (rule nearest_double_le_double)
  then have "\<not> max_double < nearest_double d" using d1 by (rule not_overflow) simp
  then show ?thesis by (simp add: d_def Let_def)
qed

lemma calculate_per_100000_stat_value:
  assumes "population \<noteq> 0" and "stat \<noteq> 0"
    and "\<bar>population\<bar> \<le> 2 ^ 1000" and "\<bar>stat\<bar> \<le> 2 ^ 1000"
  shows "\<exists>r. calculate_per_100000_stat population stat
           = Inr (Fin ((stat < 0) \<noteq> (population < 0)) r)"
proof -
  obtain n where n: "int_true_divide population 100000 = Inr (Fin (population < 0) n)"
      "1 / 200000 \<le> n"
    using int_true_divide_100000 [OF assms(1,3)] by blast
  obtain m where m: "float_of_int stat = Inr (Fin (stat < 0) m)" "m \<le> 2 ^ 1001"
    using float_of_int_small [OF assms(2,4)] by blast
  have m0: "0 \<le> m"
    using m(1) nearest_double_nonneg [of "\<bar>of_int stat\<bar>"]
    by (auto simp: float_of_int_def Let_def split: if_splits)
  obtain q where q: "float_div (Fin (stat < 0) m) (Fin (population < 0) n)
        = Fin ((stat < 0) \<noteq> (population < 0)) q" "0 \<le> q" "q \<le> 2 ^ 1020"
    using float_div_bounded [OF m0 m(2) n(2)] by blast
  obtain r where r: "float_round (Fin ((stat < 0) \<noteq> (population < 0)) q) 1
        = Inr (Fin ((stat < 0) \<noteq> (population < 0)) r)"
    using float_round_bounded [OF q(2,3)] by blast
  have nz: "n \<noteq> 0" using n(2) by auto
  show ?thesis
    using assms(2) n(1) m(1) q(1) r nz
    by (simp add: calculate_per_100000_stat_def int_truediv_float_def)
qed

lemma int_true_divide_errors:
  "int_true_divide a b = Inl e \<Longrightarrow> e = ZeroDivisionError \<or> e = OverflowError"
  by (auto simp: int_true_divide_def Let_def split: if_splits)

lemma int_truediv_float_errors:
  "int_truediv_float a y = Inl e \<Longrightarrow> e = ZeroDivisionError \<or> e = OverflowError"
  by (auto simp: int_truediv_float_def float_of_int_def Let_def split: if_splits sum.splits)

lemma float_round_errors: "float_round x n = Inl e \<Longrightarrow> e = OverflowError"
  by (cases x) (auto simp: Let_def split: if_splits)

lemma calculate_per_100000_stat_errors:
  "calculate_per_100000_stat population stat = Inl e \<Longrightarrow>
     e = ZeroDivisionError \<or> e = OverflowError"
  by (auto simp: calculate_per_100000_stat_def split: if_splits sum.splits
      dest: int_true_divide_errors int_truediv_float_errors float_round_errors)

lemma int_true_divide_zero: "int_true_divide 0 100000 = Inr (Fin False 0)"
  by (simp add: int_true_divide_def nearest_double_def max_double_def)

lemma int_true_divide_100000_nonzero:
  assumes "a \<noteq> 0" and "int_true_divide a 100000 = Inr x"
  shows "\<not> float_is_zero x"
proof -
  define m :: rat where "m = \<bar>of_int a\<bar> / 100000"
  have "1 \<le> \<bar>a\<bar>" using assms(1) by linarith
  then have "(1::rat) \<le> of_int \<bar>a\<bar>" by (simp only: of_int_1_le_iff)
  then have lo: "1 / 100000 \<le> m" by (simp add: m_def)
  have "pow2 (- 1074) \<le> m" using lo pow2_m1074 by linarith
  then have "m / 2 \<le> nearest_double m" by (rule nearest_double_ge_half)
  then have "0 < nearest_double m" using lo by linarith
  then show ?thesis
    using assms(2) by (auto simp: int_true_divide_def m_def Let_def split: if_splits)
qed

lemma int_true_divide_100000_error:
  "int_true_divide a 100000 = Inl e \<Longrightarrow> e = OverflowError"
  by (auto simp: int_true_divide_def Let_def split: if_splits)

lemma int_truediv_float_error:
  "\<not> float_is_zero y \<Longrightarrow> int_truediv_float a y = Inl e \<Longrightarrow> e = OverflowError"
  by (auto simp: int_truediv_float_def float_of_int_def Let_def split: if_splits sum.splits)

lemma calculate_per_100000_stat_no_zero_division:
  assumes "population \<noteq> 0"
  shows "calculate_per_100000_stat population stat \<noteq> Inl ZeroDivisionError"
proof (cases "stat = 0")
  case True
  then show ?thesis by (simp add: calculate_per_100000_stat_def)
next
  case False
  show ?thesis
  proof (cases "int_true_divide population 100000")
    case (Inl e)
    then show ?thesis
      using False int_true_divide_100000_error [OF Inl]
      by (simp add: calculate_per_100000_stat_def)
  next
    case (Inr x)
    have x: "\<not> float_is_zero x" using assms Inr by (rule int_true_divide_100000_nonzero)
    show ?thesis
    proof (cases "int_truediv_float stat x")
      case (Inl e)
      then show ?thesis
        using False Inr int_truediv_float_error [OF x Inl]
        by (simp add: calculate_per_100000_stat_def)
    next
      case (Inr q)
      then show ?thesis
        using False \<open>int_true_divide population 100000 = Inr x\<close> float_round_errors [of q 1]
        by (auto simp: calculate_per_100000_stat_def)
    qed
  qed
qed

text \<open>
  C1: for a positive population and a positive count the call evaluates
  \<^verbatim>\<open>round(count / (population / 100000), 1)\<close>: its outcome is the outcome of the two
  divisions followed by the rounding to one decimal; the division by zero cannot happen;
  and it returns a float, of positive sign, whenever both arguments are at most
  \<open>2\<^sup>1\<^sup>0\<^sup>0\<^sup>0\<close> (beyond the range of floats, \<^verbatim>\<open>OverflowError\<close> is what the expression
  itself raises).
\<close>

theorem calculate_per_100000_stat_rate:
  assumes "0 < population" and "0 < stat"
  shows "calculate_per_100000_stat population stat =
           (case int_true_divide population 100000 of
              Inl e \<Rightarrow> Inl e
            | Inr converted_population \<Rightarrow>
                (case int_truediv_float stat converted_population of
                   Inl e \<Rightarrow> Inl e
                 | Inr q \<Rightarrow> float_round q 1))
         \<and> calculate_per_100000_stat population stat \<noteq> Inl ZeroDivisionError
         \<and> (population \<le> 2 ^ 1000 \<and> stat \<le> 2 ^ 1000 \<longrightarrow>
              (\<exists>r. calculate_per_100000_stat population stat = Inr (Fin False r)))"
proof (intro conjI impI)
  show "calculate_per_100000_stat population stat =
           (case int_true_divide population 100000 of
              Inl e \<Rightarrow> Inl e
            | Inr converted_population \<Rightarrow>
                (case int_truediv_float stat converted_population of
                   Inl e \<Rightarrow> Inl e
                 | Inr q \<Rightarrow> float_round q 1))"
    using assms(2) by (simp add: calculate_per_100000_stat_def)
next
  have p: "population \<noteq> 0" using assms(1) by simp
  show "calculate_per_100000_stat population stat \<noteq> Inl ZeroDivisionError"
    using assms(2) calculate_per_100000_stat_no_zero_division [OF p] by simp
next
  assume "population \<le> 2 ^ 1000 \<and> stat \<le> 2 ^ 1000"
  then show "\<exists>r. calculate_per_100000_stat population stat = Inr (Fin False r)"
    using assms calculate_per_100000_stat_value [of population stat] by simp
qed

text \<open>
  C2: whenever the count is 0 the result is exactly the float \<^verbatim>\<open>0.0\<close>, whatever the
  population is (zero and negative populations included): no division is evaluated.
\<close>

theorem calculate_per_100000_stat_zero:
  "calculate_per_100000_stat population 0 = Inr (Fin False 0)"
  by (simp add: calculate_per_100000_stat_def)

end
